theory Spec2Isabelle
  imports Complex_Main "HOL-Library.Word"
begin

unbundle bit_operations_syntax

section \<open>VideoThread: the state read by the capture loop\<close>

text \<open>
  The fields set by \<^verbatim>\<open>VideoThread.__init__\<close>. The field \<^verbatim>\<open>rotate\<close> is a Python
  integer, so it is an \<^typ>\<open>int\<close> here; it is named \<open>rotate_deg\<close> because \<open>rotate\<close> is a
  list function of HOL. The field \<^verbatim>\<open>effect\<close> is a Python string. \<open>qthread\<close> is the
  state the class inherits from \<^verbatim>\<open>QThread\<close>: whether the thread has been started, is
  executing \<^verbatim>\<open>run\<close>, or has returned from it.
\<close>

datatype qthread_state = Not_started | Executing | Finished

record video_thread =
  device :: "int option"
  running :: bool
  mirror :: bool
  flip :: bool
  rotate_deg :: int
  effect :: string
  qthread :: qthread_state

definition VideoThread_init :: video_thread where
  "VideoThread_init =
     \<lparr>device = None, running = False, mirror = False, flip = False,
      rotate_deg = 0, effect = ''none'', qthread = Not_started\<rparr>"

text \<open>
  \<^verbatim>\<open>WebcamController.rotate_video\<close>:
  \<^verbatim>\<open>self.video_thread.rotate = (self.video_thread.rotate + 90) % 360\<close>.
  Python's \<^verbatim>\<open>%\<close> with a positive modulus is HOL's \<open>mod\<close> on \<^typ>\<open>int\<close>. The text of
  the button, which the method sets next, is no part of the thread's state.
\<close>

definition rotate_video :: "video_thread \<Rightarrow> video_thread" where
  "rotate_video vt = vt\<lparr>rotate_deg := (rotate_deg vt + 90) mod 360\<rparr>"

text \<open>
  \<^verbatim>\<open>WebcamController.change_effect\<close>: the name chosen in the list of effects is looked up
  in \<^verbatim>\<open>effect_map\<close>, with \<^verbatim>\<open>'none'\<close> for a name that is not a key.
\<close>

definition effect_map :: "(string \<times> string) list" where
  "effect_map =
     [(''None'', ''none''), (''Blur'', ''blur''), (''Edge Detection'', ''edge''),
      (''Cartoon'', ''cartoon''), (''Sepia'', ''sepia''), (''Negative'', ''negative''),
      (''Grayscale'', ''grayscale''), (''Emboss'', ''emboss''), (''Sharpen'', ''sharpen'')]"

definition change_effect :: "string \<Rightarrow> video_thread \<Rightarrow> video_thread" where
  "change_effect effect_name vt =
     vt\<lparr>effect := (case map_of effect_map effect_name of None \<Rightarrow> ''none'' | Some e \<Rightarrow> e)\<rparr>"

text \<open>
  \<^verbatim>\<open>toggle_mirror\<close> and \<^verbatim>\<open>toggle_flip\<close> copy the checked state of their button.
\<close>

definition toggle_mirror :: "bool \<Rightarrow> video_thread \<Rightarrow> video_thread" where
  "toggle_mirror isChecked vt = vt\<lparr>mirror := isChecked\<rparr>"

definition toggle_flip :: "bool \<Rightarrow> video_thread \<Rightarrow> video_thread" where
  "toggle_flip isChecked vt = vt\<lparr>flip := isChecked\<rparr>"

section \<open>Frames and the library calls on them\<close>

text \<open>
  A frame is a \<^verbatim>\<open>numpy\<close> array of shape (rows, columns, channels) with elements of type
  \<^verbatim>\<open>uint8\<close>: a list of rows, a row a list of pixels, a pixel the list of its channel
  values. A frame read from the camera has three channels in the order blue, green, red;
  a grey image has one channel.
\<close>

type_synonym u8 = "8 word"
type_synonym pixel = "u8 list"
type_synonym frame = "pixel list list"

definition rows :: "frame \<Rightarrow> nat" where
  "rows f = length f"

definition cols :: "frame \<Rightarrow> nat" where
  "cols f = (case f of [] \<Rightarrow> 0 | r # _ \<Rightarrow> length r)"

definition chans :: "frame \<Rightarrow> nat" where
  "chans f = (case f of [] \<Rightarrow> 0 | r # _ \<Rightarrow> (case r of [] \<Rightarrow> 0 | px # _ \<Rightarrow> length px))"

text \<open>
  \<^verbatim>\<open>saturate_cast<uchar>\<close> of OpenCV on an integer: values below 0 become 0, values
  above 255 become 255. \<^verbatim>\<open>cvRound\<close> rounds a fraction to the nearest integer, halves to
  the even neighbour.
\<close>

definition saturate_u8 :: "int \<Rightarrow> u8" where
  "saturate_u8 v = word_of_int (max 0 (min 255 v))"

definition cv_round :: "rat \<Rightarrow> int" where
  "cv_round x =
     (let f = \<lfloor>x\<rfloor>; d = x - of_int f in
      if d < 1 / 2 then f else if 1 / 2 < d then f + 1 else if even f then f else f + 1)"

text \<open>
  \<^verbatim>\<open>cv2.flip(src, flipCode)\<close>: 0 reverses the order of the rows (a flip around the
  horizontal axis), a positive code reverses every row (around the vertical axis), a
  negative code does both.
\<close>

definition cv_flip :: "frame \<Rightarrow> int \<Rightarrow> frame" where
  "cv_flip src flipCode =
     (if flipCode = 0 then rev src
      else if 0 < flipCode then map rev src
      else rev (map rev src))"

text \<open>
  \<^verbatim>\<open>cv2.rotate(src, rotateCode)\<close>. For a source of \<open>h\<close> rows and \<open>w\<close> columns:
  clockwise, \<open>dst[i][j] = src[h-1-j][i]\<close>; by 180 degrees,
  \<open>dst[i][j] = src[h-1-i][w-1-j]\<close>; counterclockwise, \<open>dst[i][j] = src[j][w-1-i]\<close>.
\<close>

datatype rotate_code = ROTATE_90_CLOCKWISE | ROTATE_180 | ROTATE_90_COUNTERCLOCKWISE

fun cv_rotate :: "frame \<Rightarrow> rotate_code \<Rightarrow> frame" where
  "cv_rotate src ROTATE_90_CLOCKWISE =
     map (\<lambda>i. map (\<lambda>j. src ! (rows src - 1 - j) ! i) [0..<rows src]) [0..<cols src]"
| "cv_rotate src ROTATE_180 =
     map (\<lambda>i. map (\<lambda>j. src ! (rows src - 1 - i) ! (cols src - 1 - j)) [0..<cols src]) [0..<rows src]"
| "cv_rotate src ROTATE_90_COUNTERCLOCKWISE =
     map (\<lambda>i. map (\<lambda>j. src ! j ! (cols src - 1 - i)) [0..<rows src]) [0..<cols src]"

text \<open>
  \<^verbatim>\<open>cv2.cvtColor(src, cv2.COLOR_BGR2RGB)\<close> swaps the first and the third channel of a
  three-channel pixel; \<^verbatim>\<open>cv2.COLOR_GRAY2BGR\<close> repeats the one channel of a grey pixel
  three times. Pixels of another shape do not reach these calls from the camera; they are
  left as they are.
\<close>

definition cvtColor_BGR2RGB :: "frame \<Rightarrow> frame" where
  "cvtColor_BGR2RGB src = map (map (\<lambda>px. case px of [b, g, r] \<Rightarrow> [r, g, b] | _ \<Rightarrow> px)) src"

definition cvtColor_GRAY2BGR :: "frame \<Rightarrow> frame" where
  "cvtColor_GRAY2BGR src = map (map (\<lambda>px. case px of [v] \<Rightarrow> [v, v, v] | _ \<Rightarrow> px)) src"

text \<open>
  \<^verbatim>\<open>cv2.transform(src, m)\<close> with a matrix of as many columns as the source has channels:
  every pixel is taken as a vector of its channels in their stored order and multiplied
  by \<open>m\<close>, \<open>dst[c] = saturate (\<Sum>k. m[c][k] * src[k])\<close>. On a source of \<^verbatim>\<open>uint8\<close> with
  three channels and a matrix of three rows whose coefficients are below 32 in
  magnitude, which is the one call of the code, the library computes in fixed point with
  ten fractional bits: every coefficient is multiplied by 1024 and rounded, and the sum
  of the products, with 512 added, is shifted right by ten bits.
\<close>

definition fixed_point :: "rat \<Rightarrow> int" where
  "fixed_point k = cv_round (k * 1024)"

definition cv_transform :: "frame \<Rightarrow> rat list list \<Rightarrow> frame" where
  "cv_transform src m =
     map (map (\<lambda>px. map (\<lambda>mrow. saturate_u8
            ((sum_list (map (\<lambda>(k, v). fixed_point k * int (unat v)) (zip mrow px)) + 512) div 1024))
          m)) src"

text \<open>\<^verbatim>\<open>cv2.bitwise_not(src)\<close>: the complement of every channel value.\<close>

definition cv_bitwise_not :: "frame \<Rightarrow> frame" where
  "cv_bitwise_not src = map (map (map (\<lambda>v. NOT v))) src"

text \<open>
  \<^verbatim>\<open>cv2.bitwise_and(src1, src2, mask=mask)\<close> into a new array: where the one-channel mask
  is not zero the pixel is the conjunction of the two sources, elsewhere it is zero.
\<close>

definition cv_bitwise_and :: "frame \<Rightarrow> frame \<Rightarrow> frame \<Rightarrow> frame" where
  "cv_bitwise_and src1 src2 msk =
     map (\<lambda>(r1, r2, rm).
            map (\<lambda>(p1, p2, pm).
                   if pm = [0] then map (\<lambda>_. 0) p1
                   else map (\<lambda>(a, b). a AND b) (zip p1 p2))
                (zip r1 (zip r2 rm)))
         (zip src1 (zip src2 msk))"

text \<open>
  \<^verbatim>\<open>cv2.filter2D(src, -1, kernel)\<close>: the correlation of every channel with the kernel,
  anchored at the centre of the kernel, saturated to the depth of the source. Pixels
  outside the image are read by reflection without repeating the edge
  (\<^verbatim>\<open>BORDER_REFLECT_101\<close>, the default). One reflection is enough for a kernel of three
  rows and three columns, the size of both kernels of the code.
\<close>

definition border_101 :: "int \<Rightarrow> nat \<Rightarrow> nat" where
  "border_101 p len =
     (if 0 \<le> p \<and> p < int len then nat p
      else if len = 1 then 0
      else if p < 0 then nat (- p)
      else nat (2 * int len - 2 - p))"

definition sample :: "frame \<Rightarrow> int \<Rightarrow> int \<Rightarrow> nat \<Rightarrow> int" where
  "sample src y x c =
     int (unat (src ! border_101 y (rows src) ! border_101 x (cols src) ! c))"

definition correlate :: "frame \<Rightarrow> int list list \<Rightarrow> nat \<Rightarrow> nat \<Rightarrow> nat \<Rightarrow> int" where
  "correlate src ker y x c =
     (let ay = length ker div 2;
          ax = (case ker of [] \<Rightarrow> 0 | kr # _ \<Rightarrow> length kr) div 2
      in sum_list (map (\<lambda>(i, krow).
           sum_list (map (\<lambda>(j, k).
             k * sample src (int y + int i - int ay) (int x + int j - int ax) c)
             (enumerate 0 krow)))
           (enumerate 0 ker)))"

definition cv_filter2D :: "frame \<Rightarrow> int list list \<Rightarrow> frame" where
  "cv_filter2D src ker =
     map (\<lambda>y. map (\<lambda>x. map (\<lambda>c. saturate_u8 (correlate src ker y x c))
                          [0..<chans src]) [0..<cols src]) [0..<rows src]"

text \<open>
  \<^verbatim>\<open>array + 128\<close> of \<^verbatim>\<open>numpy\<close> on an array of \<^verbatim>\<open>uint8\<close>: the result is of type
  \<^verbatim>\<open>uint8\<close> again, so the sum wraps around at 256.
\<close>

definition np_add_scalar :: "frame \<Rightarrow> u8 \<Rightarrow> frame" where
  "np_add_scalar a k = map (map (map (\<lambda>v. v + k))) a"

text \<open>
  The other calls of the library are parameters of the model, each with the arguments
  the code passes: \<^verbatim>\<open>GaussianBlur(src, ksize, sigmaX)\<close>,
  \<^verbatim>\<open>cvtColor(src, COLOR_BGR2GRAY)\<close>, \<^verbatim>\<open>Canny(image, threshold1, threshold2)\<close>,
  \<^verbatim>\<open>medianBlur(src, ksize)\<close>,
  \<^verbatim>\<open>adaptiveThreshold(src, maxValue, ADAPTIVE_THRESH_MEAN_C, THRESH_BINARY, blockSize, C)\<close>
  and \<^verbatim>\<open>bilateralFilter(src, d, sigmaColor, sigmaSpace)\<close>.
\<close>

record cvlib =
  GaussianBlur :: "frame \<Rightarrow> nat \<times> nat \<Rightarrow> int \<Rightarrow> frame"
  cvtColor_BGR2GRAY :: "frame \<Rightarrow> frame"
  Canny :: "frame \<Rightarrow> int \<Rightarrow> int \<Rightarrow> frame"
  medianBlur :: "frame \<Rightarrow> nat \<Rightarrow> frame"
  adaptiveThreshold_MEAN_BINARY :: "frame \<Rightarrow> int \<Rightarrow> nat \<Rightarrow> int \<Rightarrow> frame"
  bilateralFilter :: "frame \<Rightarrow> int \<Rightarrow> int \<Rightarrow> int \<Rightarrow> frame"

section \<open>VideoThread: effects and the capture loop\<close>

text \<open>The kernels of \<^verbatim>\<open>apply_effect\<close>, as the code writes them.\<close>

definition sepia_kernel :: "rat list list" where
  "sepia_kernel = [[0.272, 0.534, 0.131],
                   [0.349, 0.686, 0.168],
                   [0.393, 0.769, 0.189]]"

definition emboss_kernel :: "int list list" where
  "emboss_kernel = [[0, -1, -1],
                    [1, 0, -1],
                    [1, 1, 0]]"

definition sharpen_kernel :: "int list list" where
  "sharpen_kernel = [[0, -1, 0],
                     [-1, 5, -1],
                     [0, -1, 0]]"

text \<open>\<^verbatim>\<open>VideoThread.apply_effect\<close>: the chain of comparisons on \<^verbatim>\<open>self.effect\<close>.\<close>

definition apply_effect :: "cvlib \<Rightarrow> video_thread \<Rightarrow> frame \<Rightarrow> frame" where
  "apply_effect cv vt frame =
     (if effect vt = ''none'' then frame
      else if effect vt = ''blur'' then GaussianBlur cv frame (15, 15) 0
      else if effect vt = ''edge'' then
        (let gray = cvtColor_BGR2GRAY cv frame;
             edges = Canny cv gray 100 200
         in cvtColor_GRAY2BGR edges)
      else if effect vt = ''cartoon'' then
        (let gray = cvtColor_BGR2GRAY cv frame;
             gray = medianBlur cv gray 5;
             edges = adaptiveThreshold_MEAN_BINARY cv gray 255 9 9;
             color = bilateralFilter cv frame 9 300 300
         in cv_bitwise_and color color edges)
      else if effect vt = ''sepia'' then cv_transform frame sepia_kernel
      else if effect vt = ''negative'' then cv_bitwise_not frame
      else if effect vt = ''grayscale'' then
        (let gray = cvtColor_BGR2GRAY cv frame in cvtColor_GRAY2BGR gray)
      else if effect vt = ''emboss'' then np_add_scalar (cv_filter2D frame emboss_kernel) 128
      else if effect vt = ''sharpen'' then cv_filter2D frame sharpen_kernel
      else frame)"

text \<open>
  The body of the loop of \<^verbatim>\<open>VideoThread.run\<close> after a successful read, up to the image
  handed to \<^verbatim>\<open>change_pixmap.emit\<close>: a copy of the RGB buffer, row by row.
\<close>

definition process_frame :: "cvlib \<Rightarrow> video_thread \<Rightarrow> frame \<Rightarrow> frame" where
  "process_frame cv vt frame0 =
     (let frame = (if mirror vt then cv_flip frame0 1 else frame0);
          frame = (if flip vt then cv_flip frame 0 else frame);
          frame = (if rotate_deg vt = 90 then cv_rotate frame ROTATE_90_CLOCKWISE
                   else if rotate_deg vt = 180 then cv_rotate frame ROTATE_180
                   else if rotate_deg vt = 270 then cv_rotate frame ROTATE_90_COUNTERCLOCKWISE
                   else frame);
          frame = apply_effect cv vt frame;
          rgb_image = cvtColor_BGR2RGB frame
      in rgb_image)"

text \<open>
  The loop of \<^verbatim>\<open>run\<close> shares the fields of the thread object with the user interface,
  which writes them from another thread. An execution is a list of events: a \<open>Read\<close> is
  one test of \<^verbatim>\<open>self.running\<close> followed, when it holds, by one \<^verbatim>\<open>cap.read()\<close>
  with its result; a \<open>Ui\<close> is a write of the user interface that lands between two
  iterations. A list of events is a finite prefix of an execution.
\<close>

datatype ui_action =
    Toggle_mirror bool
  | Toggle_flip bool
  | Rotate_video
  | Change_effect string
  | Clear_running

fun ui_step :: "ui_action \<Rightarrow> video_thread \<Rightarrow> video_thread" where
  "ui_step (Toggle_mirror b) vt = toggle_mirror b vt"
| "ui_step (Toggle_flip b) vt = toggle_flip b vt"
| "ui_step Rotate_video vt = rotate_video vt"
| "ui_step (Change_effect n) vt = change_effect n vt"
| "ui_step Clear_running vt = vt\<lparr>running := False\<rparr>"

datatype event = Read bool frame | Ui ui_action

text \<open>
  \<^verbatim>\<open>while self.running: ...\<close> followed by \<^verbatim>\<open>cap.release()\<close>. \<open>out\<close> collects the images
  emitted so far. When the test fails the loop is left, \<^verbatim>\<open>run\<close> returns and the thread
  is finished. At the end of the events the loop is still where it was.
\<close>

fun capture_loop :: "cvlib \<Rightarrow> video_thread \<Rightarrow> frame list \<Rightarrow> event list \<Rightarrow> video_thread \<times> frame list" where
  "capture_loop cv vt out [] = (vt, out)"
| "capture_loop cv vt out (Ui a # evs) = capture_loop cv (ui_step a vt) out evs"
| "capture_loop cv vt out (Read ret frame # evs) =
     (if \<not> running vt then (vt\<lparr>qthread := Finished\<rparr>, out)
      else if \<not> ret then capture_loop cv vt out evs
      else capture_loop cv vt (out @ [process_frame cv vt frame]) evs)"

text \<open>
  \<^verbatim>\<open>VideoThread.run\<close>, executed by the thread that \<^verbatim>\<open>start()\<close> creates. \<open>opened\<close> is the
  result of \<^verbatim>\<open>cap.isOpened()\<close>; the line printed when it is false is left out.
\<close>

definition run :: "cvlib \<Rightarrow> bool \<Rightarrow> video_thread \<Rightarrow> event list \<Rightarrow> video_thread \<times> frame list" where
  "run cv opened vt evs =
     (if device vt = None then (vt\<lparr>qthread := Finished\<rparr>, [])
      else if \<not> opened then (vt\<lparr>qthread := Finished\<rparr>, [])
      else capture_loop cv (vt\<lparr>running := True\<rparr>) [] evs)"

text \<open>
  \<^verbatim>\<open>QThread.wait()\<close> blocks until the thread has returned from \<^verbatim>\<open>run\<close>; it returns at
  once when the thread has finished or has not been started yet. \<^verbatim>\<open>VideoThread.stop\<close>
  clears the flag and waits.
\<close>

datatype wait_result = Returns_at_once | Blocks_until_run_returns

definition QThread_wait :: "video_thread \<Rightarrow> wait_result" where
  "QThread_wait vt = (if qthread vt = Executing then Blocks_until_run_returns else Returns_at_once)"

definition stop :: "video_thread \<Rightarrow> video_thread \<times> wait_result" where
  "stop vt = (let vt = vt\<lparr>running := False\<rparr> in (vt, QThread_wait vt))"

subsection \<open>The pipeline in the words of the specification\<close>

text \<open>
  The five steps of the specification, each a function of its own: a horizontal mirror
  reverses every row, a vertical flip reverses the order of the rows, the rotation is as
  many clockwise quarter turns as the rotation field has multiples of 90, the effect is
  the one transform of the tag, and the conversion for display swaps blue and red.
\<close>

definition mirror_step :: "bool \<Rightarrow> frame \<Rightarrow> frame" where
  "mirror_step on f = (if on then map rev f else f)"

definition flip_step :: "bool \<Rightarrow> frame \<Rightarrow> frame" where
  "flip_step on f = (if on then rev f else f)"

definition quarter_turn :: "frame \<Rightarrow> frame" where
  "quarter_turn f = cv_rotate f ROTATE_90_CLOCKWISE"

definition rotation_step :: "int \<Rightarrow> frame \<Rightarrow> frame" where
  "rotation_step degrees f = (quarter_turn ^^ nat (degrees div 90)) f"

datatype effect_tag =
  No_effect | Blur | Edge_detect | Cartoon | Sepia | Negative | Grayscale | Emboss | Sharpen

definition tag_of :: "string \<Rightarrow> effect_tag option" where
  "tag_of e =
     map_of [(''none'', No_effect), (''blur'', Blur), (''edge'', Edge_detect),
             (''cartoon'', Cartoon), (''sepia'', Sepia), (''negative'', Negative),
             (''grayscale'', Grayscale), (''emboss'', Emboss), (''sharpen'', Sharpen)] e"

fun effect_step :: "cvlib \<Rightarrow> effect_tag \<Rightarrow> frame \<Rightarrow> frame" where
  "effect_step cv No_effect f = f"
| "effect_step cv Blur f = GaussianBlur cv f (15, 15) 0"
| "effect_step cv Edge_detect f = cvtColor_GRAY2BGR (Canny cv (cvtColor_BGR2GRAY cv f) 100 200)"
| "effect_step cv Cartoon f =
     cv_bitwise_and (bilateralFilter cv f 9 300 300) (bilateralFilter cv f 9 300 300)
       (adaptiveThreshold_MEAN_BINARY cv (medianBlur cv (cvtColor_BGR2GRAY cv f) 5) 255 9 9)"
| "effect_step cv Sepia f = cv_transform f sepia_kernel"
| "effect_step cv Negative f = cv_bitwise_not f"
| "effect_step cv Grayscale f = cvtColor_GRAY2BGR (cvtColor_BGR2GRAY cv f)"
| "effect_step cv Emboss f = np_add_scalar (cv_filter2D f emboss_kernel) 128"
| "effect_step cv Sharpen f = cv_filter2D f sharpen_kernel"

definition display_step :: "frame \<Rightarrow> frame" where
  "display_step f = cvtColor_BGR2RGB f"

text \<open>
  An image as the camera delivers it: at least one row and one column, all rows of the
  same length.
\<close>

definition is_image :: "frame \<Rightarrow> bool" where
  "is_image f = (0 < rows f \<and> 0 < cols f \<and> list_all (\<lambda>r. length r = cols f) f)"

text \<open>
  The sepia transform in the words of the specification, on a pixel stored as blue,
  green, red: every output channel is its row of coefficients applied to the red, the
  green and the blue input in this order, rounded to the nearest level and clamped.
\<close>

definition sepia_spec_pixel :: "pixel \<Rightarrow> pixel" where
  "sepia_spec_pixel px =
     (case px of
        [b, g, r] \<Rightarrow>
          (let R = (of_nat (unat r) :: rat); G = of_nat (unat g); B = of_nat (unat b) in
           [saturate_u8 (cv_round (0.272 * R + 0.534 * G + 0.131 * B)),
            saturate_u8 (cv_round (0.349 * R + 0.686 * G + 0.168 * B)),
            saturate_u8 (cv_round (0.393 * R + 0.769 * G + 0.189 * B))])
      | _ \<Rightarrow> px)"

text \<open>
  A library for the examples: each of its parameter calls returns the image it is given.
\<close>

definition plain_cv :: cvlib where
  "plain_cv =
     \<lparr>GaussianBlur = (\<lambda>src ksize sigmaX. src), cvtColor_BGR2GRAY = (\<lambda>src. src),
      Canny = (\<lambda>image threshold1 threshold2. image), medianBlur = (\<lambda>src ksize. src),
      adaptiveThreshold_MEAN_BINARY = (\<lambda>src maxValue blockSize C. src),
      bilateralFilter = (\<lambda>src d sigmaColor sigmaSpace. src)\<rparr>"

section \<open>WebcamController: parsing the control listing\<close>

subsection \<open>Strings and character classes of Python\<close>

text \<open>
  A Python \<^verbatim>\<open>str\<close> is modelled as a \<^typ>\<open>string\<close>, each \<^typ>\<open>char\<close> standing for the
  code point of the same number (0 to 255; the listing of \<^verbatim>\<open>v4l2-ctl\<close> is ASCII). The
  classes are those of \<^verbatim>\<open>re\<close> on \<^verbatim>\<open>str\<close> patterns, restricted to these code points:
  \<^verbatim>\<open>\s\<close> and \<^verbatim>\<open>str.isspace\<close> accept 9 to 13, 28 to 32, 133 and 160; \<^verbatim>\<open>\d\<close> accepts
  the digits 48 to 57; \<^verbatim>\<open>\w\<close> accepts the alphanumeric code points and the underscore;
  \<^verbatim>\<open>.\<close> accepts everything but the newline.
\<close>

definition is_space :: "char \<Rightarrow> bool" where
  "is_space c =
     (let n = (of_char c :: nat) in (9 \<le> n \<and> n \<le> 13) \<or> (28 \<le> n \<and> n \<le> 32) \<or> n = 133 \<or> n = 160)"

definition is_digit :: "char \<Rightarrow> bool" where
  "is_digit c = (let n = (of_char c :: nat) in 48 \<le> n \<and> n \<le> 57)"

definition is_word :: "char \<Rightarrow> bool" where
  "is_word c =
     (let n = (of_char c :: nat) in
        (48 \<le> n \<and> n \<le> 57) \<or> (65 \<le> n \<and> n \<le> 90) \<or> n = 95 \<or> (97 \<le> n \<and> n \<le> 122) \<or>
        n = 170 \<or> n = 178 \<or> n = 179 \<or> n = 181 \<or> n = 185 \<or> n = 186 \<or>
        (188 \<le> n \<and> n \<le> 190) \<or> (192 \<le> n \<and> n \<le> 214) \<or> (216 \<le> n \<and> n \<le> 246) \<or>
        (248 \<le> n \<and> n \<le> 255))"

definition is_any :: "char \<Rightarrow> bool" where
  "is_any c = (c \<noteq> CHR 0x0A)"

text \<open>\<^verbatim>\<open>sub in s\<close>: the substring test of Python.\<close>

fun contains :: "string \<Rightarrow> string \<Rightarrow> bool" where
  "contains sub [] = (sub = [])"
| "contains sub (c # cs) = (take (length sub) (c # cs) = sub \<or> contains sub cs)"

text \<open>\<^verbatim>\<open>output.split('\n')\<close>: one more piece than there are newlines.\<close>

fun split_newline :: "string \<Rightarrow> string list" where
  "split_newline [] = [[]]"
| "split_newline (c # cs) =
     (if c = CHR 0x0A then [] # split_newline cs
      else (case split_newline cs of [] \<Rightarrow> [[c]] | l # ls \<Rightarrow> (c # l) # ls))"

text \<open>
  \<^verbatim>\<open>int(s)\<close> on a string that matched \<^verbatim>\<open>-?\d+\<close>: an optional minus sign and decimal
  digits, leading zeros allowed. Python's integers are unbounded; the limit an
  interpreter may set on the number of digits is not modelled.
\<close>

definition digit_value :: "char \<Rightarrow> int" where
  "digit_value c = int (of_char c) - 48"

definition decimal :: "string \<Rightarrow> int" where
  "decimal ds = foldl (\<lambda>a c. 10 * a + digit_value c) 0 ds"

fun py_int :: "string \<Rightarrow> int" where
  "py_int [] = 0"
| "py_int (c # cs) = (if c = CHR ''-'' then - decimal cs else decimal (c # cs))"

subsection \<open>The regular expressions\<close>

text \<open>
  The two patterns use only literals, a greedy \<^verbatim>\<open>*\<close> or \<^verbatim>\<open>+\<close> over one character
  class, the optional minus sign \<^verbatim>\<open>-?\<close> and groups that do not nest. A pattern is the
  list of its items in order; \<open>Grp_open\<close> and \<open>Grp_close\<close> are the parentheses of a group.
\<close>

datatype re_item =
    Lit string
  | Star "char \<Rightarrow> bool"
  | Plus "char \<Rightarrow> bool"
  | Opt char
  | Grp_open
  | Grp_close

text \<open>
  The ways a greedy repetition of class \<open>p\<close> can consume a prefix of \<open>s\<close>, longest first:
  the order in which a backtracking matcher tries them.
\<close>

fun spans :: "(char \<Rightarrow> bool) \<Rightarrow> string \<Rightarrow> (string \<times> string) list" where
  "spans p [] = [([], [])]"
| "spans p (c # cs) =
     (if p c then map (\<lambda>(a, r). (c # a, r)) (spans p cs) @ [([], c # cs)]
      else [([], c # cs)])"

fun first_some :: "'a option list \<Rightarrow> 'a option" where
  "first_some [] = None"
| "first_some (None # xs) = first_some xs"
| "first_some (Some x # xs) = Some x"

text \<open>
  \<^verbatim>\<open>re.match(pattern, s)\<close> followed by \<^verbatim>\<open>.groups()\<close>: the match is anchored at the start
  of \<open>s\<close> and need not reach its end. The result is \<open>None\<close> when nothing matches, and
  the texts of the groups of the first match in backtracking order otherwise. \<open>cur\<close> is
  the text consumed since the last \<open>Grp_open\<close>.
\<close>

fun re_match :: "re_item list \<Rightarrow> string \<Rightarrow> string \<Rightarrow> string list option" where
  "re_match [] cur s = Some []"
| "re_match (Lit l # items) cur s =
     (if take (length l) s = l then re_match items (cur @ l) (drop (length l) s) else None)"
| "re_match (Star p # items) cur s =
     first_some (map (\<lambda>(a, r). re_match items (cur @ a) r) (spans p s))"
| "re_match (Plus p # items) cur s =
     first_some (map (\<lambda>(a, r). re_match items (cur @ a) r)
                     (filter (\<lambda>(a, r). a \<noteq> []) (spans p s)))"
| "re_match (Opt x # items) cur s =
     first_some [case s of [] \<Rightarrow> None
                 | c # cs \<Rightarrow> if c = x then re_match items (cur @ [x]) cs else None,
                 re_match items cur s]"
| "re_match (Grp_open # items) cur s = re_match items [] s"
| "re_match (Grp_close # items) cur s = map_option ((#) cur) (re_match items cur s)"

text \<open>
  \<^verbatim>\<open>\s*(\w+)\s+0x\w+\s+\((\w+)\)\s*:\s*min=(-?\d+)\s+max=(-?\d+).*default=(-?\d+)\s+value=(-?\d+)\<close>
\<close>

definition int_pattern :: "re_item list" where
  "int_pattern =
     [Star is_space, Grp_open, Plus is_word, Grp_close, Plus is_space,
      Lit ''0x'', Plus is_word, Plus is_space,
      Lit ''('', Grp_open, Plus is_word, Grp_close, Lit '')'',
      Star is_space, Lit '':'', Star is_space,
      Lit ''min='', Grp_open, Opt (CHR ''-''), Plus is_digit, Grp_close, Plus is_space,
      Lit ''max='', Grp_open, Opt (CHR ''-''), Plus is_digit, Grp_close,
      Star is_any,
      Lit ''default='', Grp_open, Opt (CHR ''-''), Plus is_digit, Grp_close, Plus is_space,
      Lit ''value='', Grp_open, Opt (CHR ''-''), Plus is_digit, Grp_close]"

text \<open>
  \<^verbatim>\<open>\s*(\w+)\s+0x\w+\s+\(bool\)\s*:\s*default=(\d+)\s+value=(\d+)\<close>
\<close>

definition bool_pattern :: "re_item list" where
  "bool_pattern =
     [Star is_space, Grp_open, Plus is_word, Grp_close, Plus is_space,
      Lit ''0x'', Plus is_word, Plus is_space,
      Lit ''(bool)'', Star is_space, Lit '':'', Star is_space,
      Lit ''default='', Grp_open, Plus is_digit, Grp_close, Plus is_space,
      Lit ''value='', Grp_open, Plus is_digit, Grp_close]"

subsection \<open>parse_and_create_controls\<close>

text \<open>
  One call of \<^verbatim>\<open>create_slider_control(name, min_val, max_val, current_val, default_val)\<close>.
  The code keeps no type with a slider; \<open>kind\<close> records which of the two branches of the
  parser made the call: \<open>Integer\<close> for the branch guarded by \<^verbatim>\<open>ctrl_type == 'int'\<close>,
  \<open>Boolean\<close> for the branch of the \<^verbatim>\<open>(bool)\<close> pattern.
\<close>

datatype ctrl_kind = Integer | Boolean

record control =
  name :: string
  kind :: ctrl_kind
  min_val :: int
  max_val :: int
  current_val :: int
  default_val :: int

text \<open>
  The body of the loop over the lines, up to the call of \<^verbatim>\<open>create_slider_control\<close>: the
  arguments of the call it makes for a line, if it makes one.
\<close>

definition parse_line :: "string \<Rightarrow> control option" where
  "parse_line line =
     (if list_all is_space line \<or> contains ''User Controls'' line \<or> contains ''Camera Controls'' line
      then None
      else
        (case re_match int_pattern [] line of
           Some groups \<Rightarrow>
             (case groups of
                [nm, ctrl_type, min_v, max_v, default_v, current_v] \<Rightarrow>
                  if ctrl_type = ''int'' \<and> \<not> contains ''inactive'' line
                     \<and> \<not> contains ''flags=has-payload'' line
                  then Some \<lparr>name = nm, kind = Integer, min_val = py_int min_v,
                             max_val = py_int max_v, current_val = py_int current_v,
                             default_val = py_int default_v\<rparr>
                  else None
              | _ \<Rightarrow> None)
         | None \<Rightarrow>
             if contains ''(bool)'' line \<and> \<not> contains ''inactive'' line
             then
               (case re_match bool_pattern [] line of
                  Some [nm, default_v, current_v] \<Rightarrow>
                    Some \<lparr>name = nm, kind = Boolean, min_val = 0, max_val = 1,
                          current_val = py_int current_v, default_val = py_int default_v\<rparr>
                | _ \<Rightarrow> None)
             else None))"

text \<open>
  \<^verbatim>\<open>create_slider_control\<close> hands \<^verbatim>\<open>min_val\<close>, \<^verbatim>\<open>max_val\<close> and \<^verbatim>\<open>current_val\<close> to
  \<^verbatim>\<open>QSlider.setMinimum\<close>, \<^verbatim>\<open>setMaximum\<close> and \<^verbatim>\<open>setValue\<close>, which take a C
  \<^verbatim>\<open>int\<close>: for a value outside its range the binding raises \<^verbatim>\<open>OverflowError\<close> before
  the slider is added to the layout. The default is only stored.
\<close>

definition in_c_int :: "int \<Rightarrow> bool" where
  "in_c_int v = (- (2 ^ 31) \<le> v \<and> v < 2 ^ 31)"

definition slider_accepts :: "control \<Rightarrow> bool" where
  "slider_accepts c = (in_c_int (min_val c) \<and> in_c_int (max_val c) \<and> in_c_int (current_val c))"

datatype slider_error = OverflowError

text \<open>
  The loop over the lines. Nothing in \<^verbatim>\<open>parse_and_create_controls\<close> catches the
  exception of a slider: it ends the loop, and the lines after it are not read. The
  result is the sliders created, in the order of their lines, and the exception that
  ended the loop, if any.
\<close>

fun create_controls :: "string list \<Rightarrow> control list \<Rightarrow> control list \<times> slider_error option" where
  "create_controls [] created = (created, None)"
| "create_controls (line # lines) created =
     (case parse_line line of
        None \<Rightarrow> create_controls lines created
      | Some c \<Rightarrow>
          if slider_accepts c then create_controls lines (created @ [c])
          else (created, Some OverflowError))"

definition parse_and_create_controls :: "string \<Rightarrow> control list \<times> slider_error option" where
  "parse_and_create_controls output = create_controls (split_newline output) []"

subsection \<open>The reduced shape of a Boolean line\<close>

text \<open>
  The shape \<^verbatim>\<open><name> <hexid> (bool) : default=<int> value=<int>\<close> of the specification,
  the identifier being \<^verbatim>\<open>0x\<close> and the characters \<open>hx\<close>.
\<close>

definition bool_line :: "string \<Rightarrow> string \<Rightarrow> string \<Rightarrow> string \<Rightarrow> string" where
  "bool_line nm hx d v = nm @ '' 0x'' @ hx @ '' (bool) : default='' @ d @ '' value='' @ v"

text \<open>Whether the character \<open>a\<close> is somewhere followed at once by the character \<open>b\<close>.\<close>

fun has_pair :: "char \<Rightarrow> char \<Rightarrow> string \<Rightarrow> bool" where
  "has_pair a b (x # y # r) = ((x = a \<and> y = b) \<or> has_pair a b (y # r))"
| "has_pair a b _ = False"

section \<open>WebcamController: writing a control\<close>

text \<open>
  \<^verbatim>\<open>str(value)\<close> of an integer and \<^verbatim>\<open>s.replace('_', ' ')\<close>.
\<close>

fun digits10 :: "nat \<Rightarrow> string" where
  "digits10 n =
     (if n < 10 then [char_of (48 + n)]
      else digits10 (n div 10) @ [char_of (48 + n mod 10)])"

definition py_str :: "int \<Rightarrow> string" where
  "py_str i = (if i < 0 then CHR ''-'' # digits10 (nat (- i)) else digits10 (nat i))"

definition py_replace :: "char \<Rightarrow> char \<Rightarrow> string \<Rightarrow> string" where
  "py_replace old new s = map (\<lambda>c. if c = old then new else c) s"

text \<open>
  \<^verbatim>\<open>s.title()\<close> depends on the case of every letter of Unicode, so it is a parameter of
  the model, \<open>str_title\<close>. On a string of ASCII characters it is the function below, which
  the examples use: a letter that follows a letter is made lower case, any other letter
  upper case.
\<close>

definition is_lower :: "char \<Rightarrow> bool" where
  "is_lower c = (let n = (of_char c :: nat) in 97 \<le> n \<and> n \<le> 122)"

definition is_upper :: "char \<Rightarrow> bool" where
  "is_upper c = (let n = (of_char c :: nat) in 65 \<le> n \<and> n \<le> 90)"

fun title_from :: "bool \<Rightarrow> string \<Rightarrow> string" where
  "title_from previous_cased [] = []"
| "title_from previous_cased (c # cs) =
     (if is_lower c then
        (if previous_cased then c else char_of (of_char c - (32 :: nat))) # title_from True cs
      else if is_upper c then
        (if previous_cased then char_of (of_char c + (32 :: nat)) else c) # title_from True cs
      else c # title_from False cs)"

definition ascii_title :: "string \<Rightarrow> string" where
  "ascii_title s = title_from False s"

text \<open>
  \<^verbatim>\<open>subprocess.run(argv, capture_output=True, timeout=0.1)\<close> either returns a completed
  process, whose value the code drops, or raises. The exceptions are told apart as the
  two handlers of the code do: \<^verbatim>\<open>TimeoutExpired\<close>; any other instance of
  \<^verbatim>\<open>Exception\<close> (the tool is missing, for one), with its text; and an exception that is
  no instance of \<^verbatim>\<open>Exception\<close> (\<^verbatim>\<open>KeyboardInterrupt\<close>, \<^verbatim>\<open>SystemExit\<close>), which neither
  handler catches. What the call does is a parameter of the model. The calls made and
  the lines printed are kept in the state.
\<close>

datatype py_exception = TimeoutExpired | Other_exception string | Base_exception string

fun is_Exception :: "py_exception \<Rightarrow> bool" where
  "is_Exception TimeoutExpired = True"
| "is_Exception (Other_exception e) = True"
| "is_Exception (Base_exception e) = False"

record subprocess_call =
  argv :: "string list"
  capture_output :: bool
  timeout :: rat

record controller =
  current_device :: "string option"
  invoked :: "subprocess_call list"
  printed :: "string list"

definition label_text :: "(string \<Rightarrow> string) \<Rightarrow> string \<Rightarrow> int \<Rightarrow> string" where
  "label_text str_title control_name val =
     str_title (py_replace (CHR ''_'') (CHR '' '') control_name) @ '': '' @ py_str val"

definition set_ctrl_call :: "string \<Rightarrow> string \<Rightarrow> int \<Rightarrow> subprocess_call" where
  "set_ctrl_call dev control_name val =
     \<lparr>argv = [''v4l2-ctl'', ''-d'', dev, ''--set-ctrl'', control_name @ ''='' @ py_str val],
      capture_output = True, timeout = 0.1\<rparr>"

text \<open>
  \<^verbatim>\<open>WebcamController.update_control(control_name, value, label)\<close>. The label is the text
  of the widget the caller passes. The result is \<open>Inl\<close> for an exception that leaves the
  method and \<open>Inr\<close> for a return, with the state and the text of the label afterwards.
  \<^verbatim>\<open>not self.current_device\<close> holds for \<^verbatim>\<open>None\<close> and for the empty string. The label
  is set before the \<^verbatim>\<open>try\<close>. The first handler takes \<^verbatim>\<open>TimeoutExpired\<close> and passes, the
  second takes every other instance of \<^verbatim>\<open>Exception\<close> and prints; an exception that
  neither takes leaves the method.
\<close>

definition update_control ::
  "(string \<Rightarrow> string) \<Rightarrow> (subprocess_call \<Rightarrow> py_exception + unit) \<Rightarrow> controller \<Rightarrow> string \<Rightarrow> int
     \<Rightarrow> string \<Rightarrow> py_exception + controller \<times> string" where
  "update_control str_title subprocess_run self control_name val label =
     (case current_device self of
        None \<Rightarrow> Inr (self, label)
      | Some dev \<Rightarrow>
          if dev = [] then Inr (self, label)
          else
            (let label = label_text str_title control_name val;
                 call = set_ctrl_call dev control_name val;
                 self = self\<lparr>invoked := invoked self @ [call]\<rparr>
             in case subprocess_run call of
                  Inr completed \<Rightarrow> Inr (self, label)
                | Inl TimeoutExpired \<Rightarrow> Inr (self, label)
                | Inl (Other_exception e) \<Rightarrow>
                    Inr (self\<lparr>printed := printed self @
                               [''Error setting '' @ control_name @ '': '' @ e]\<rparr>, label)
                | Inl (Base_exception e) \<Rightarrow> Inl (Base_exception e)))"

section \<open>Rotation stays a quarter turn\<close>

lemma rotate_video_step:
  "rotate_deg vt \<in> {0, 90, 180, 270} \<Longrightarrow> rotate_deg (rotate_video vt) \<in> {0, 90, 180, 270}"
  by (auto simp: rotate_video_def)

lemma rotate_video_funpow:
  "rotate_deg vt \<in> {0, 90, 180, 270} \<Longrightarrow> rotate_deg ((rotate_video ^^ n) vt) \<in> {0, 90, 180, 270}"
  by (induction n) (simp_all add: rotate_video_step del: insert_iff)

text \<open>
  C10. The rotation field starts at 0 and, after any number \<open>n\<close> of applications of
  \<open>rotate_video\<close>, is one of 0, 90, 180 and 270.
\<close>

theorem rotation_always_quarter_turn:
  "rotate_deg VideoThread_init = 0 \<and>
   rotate_deg ((rotate_video ^^ n) VideoThread_init) \<in> {0, 90, 180, 270}"
proof -
  have "rotate_deg VideoThread_init = 0"
    by (simp add: VideoThread_init_def)
  then show ?thesis
    using rotate_video_funpow [of VideoThread_init n] by simp
qed

section \<open>The control parser\<close>

text \<open>
  A line with the marker \<^verbatim>\<open>inactive\<close> creates no slider: the integer branch tests the
  marker after its pattern matched, the Boolean branch before it tries its own.
\<close>

lemma parse_line_inactive:
  "contains ''inactive'' line \<Longrightarrow> parse_line line = None"
  by (simp add: parse_line_def split: option.splits list.splits)

text \<open>
  A line with the marker \<^verbatim>\<open>flags=has-payload\<close> creates no slider in the integer branch;
  if it creates one, the Boolean branch did.
\<close>

lemma parse_line_has_payload:
  "contains ''flags=has-payload'' line \<Longrightarrow> parse_line line = Some c \<Longrightarrow> kind c = Boolean"
  by (auto simp: parse_line_def split: if_splits option.splits list.splits)

lemma parse_line_Boolean_bounds:
  "parse_line line = Some c \<Longrightarrow> kind c = Boolean \<Longrightarrow> min_val c = 0 \<and> max_val c = 1"
  by (auto simp: parse_line_def split: if_splits option.splits list.splits)

text \<open>
  C2. The claim is that a line with the marker \<^verbatim>\<open>inactive\<close> or the marker
  \<^verbatim>\<open>flags=has-payload\<close> yields no control, whichever pattern it matches. The Boolean
  branch does not test the second marker: the line below contains it and still creates a
  slider.
\<close>

theorem has_payload_bool_line_creates_control:
  "contains ''flags=has-payload''
     ''white_balance_automatic 0x0009 (bool) : default=1 value=0 flags=has-payload'' \<and>
   parse_line ''white_balance_automatic 0x0009 (bool) : default=1 value=0 flags=has-payload'' =
     Some \<lparr>name = ''white_balance_automatic'', kind = Boolean, min_val = 0, max_val = 1,
           current_val = 0, default_val = 1\<rparr>"
  by code_simp

text \<open>
  C4. On the line \<^verbatim>\<open>brightness 0x0098 (int) : min=0 max=255 step=1 default=128 value=64\<close>
  the parser creates exactly one control, and raises nothing: name brightness, kind
  Integer, min 0, max 255, default 128, current value 64.
\<close>

theorem parse_brightness_line:
  "parse_and_create_controls
     ''brightness 0x0098 (int) : min=0 max=255 step=1 default=128 value=64'' =
   ([\<lparr>name = ''brightness'', kind = Integer, min_val = 0, max_val = 255,
      current_val = 64, default_val = 128\<rparr>], None)"
  by code_simp

subsection \<open>The matcher on a run of one class\<close>

lemma first_some_None_iff: "first_some xs = None \<longleftrightarrow> list_all (\<lambda>x. x = None) xs"
  by (induction xs rule: first_some.induct) simp_all

lemma spans_not_first: "s = [] \<or> \<not> p (hd s) \<Longrightarrow> spans p s = [([], s)]"
  by (cases s) auto

lemma spans_hd:
  "list_all p a \<Longrightarrow> r = [] \<or> \<not> p (hd r) \<Longrightarrow> \<exists>rest. spans p (a @ r) = (a, r) # rest"
proof (induction a)
  case Nil
  then show ?case by (simp add: spans_not_first)
next
  case (Cons c a)
  then obtain rest where "spans p (a @ r) = (a, r) # rest" by auto
  then show ?case using Cons.prems by simp
qed

lemma spans_split: "(x, y) \<in> set (spans p s) \<Longrightarrow> x @ y = s \<and> list_all p x"
  by (induction s arbitrary: x y) (auto split: if_splits)

lemma plus_greedy:
  assumes "list_all p a" and "a \<noteq> []" and "r = [] \<or> \<not> p (hd r)"
    and "re_match items (cur @ a) r = Some g"
  shows "re_match (Plus p # items) cur (a @ r) = Some g"
proof -
  from spans_hd [OF assms(1,3)] obtain rest where "spans p (a @ r) = (a, r) # rest" ..
  then show ?thesis using assms(2,4) by simp
qed

lemma star_greedy:
  assumes "list_all p a" and "r = [] \<or> \<not> p (hd r)"
    and "re_match items (cur @ a) r = Some g"
  shows "re_match (Star p # items) cur (a @ r) = Some g"
proof -
  from spans_hd [OF assms(1,2)] obtain rest where "spans p (a @ r) = (a, r) # rest" ..
  then show ?thesis using assms(3) by simp
qed

lemma plus_fails_at_once: "s = [] \<or> \<not> p (hd s) \<Longrightarrow> re_match (Plus p # items) cur s = None"
  by (simp add: spans_not_first)

lemma plus_none:
  assumes "list_all p a" and "r = [] \<or> \<not> p (hd r)"
    and full: "re_match items (cur @ a) r = None"
    and short: "\<And>x y. y \<noteq> [] \<Longrightarrow> p (hd y) \<Longrightarrow> re_match items (cur @ x) y = None"
  shows "re_match (Plus p # items) cur (a @ r) = None"
proof -
  have "re_match items (cur @ x) y = None" if "(x, y) \<in> set (spans p (a @ r))" for x y
  proof -
    from spans_split [OF that] have xy: "x @ y = a @ r" and px: "list_all p x" by simp_all
    from xy obtain u where "(x = a @ u \<and> u @ y = r) \<or> (x @ u = a \<and> y = u @ r)"
      by (auto simp: append_eq_append_conv2)
    then show ?thesis
    proof
      assume h: "x = a @ u \<and> u @ y = r"
      show ?thesis
      proof (cases u)
        case Nil
        with h full show ?thesis by simp
      next
        case (Cons c u')
        with h px have "p (hd r)" "r \<noteq> []" by auto
        with assms(2) show ?thesis by simp
      qed
    next
      assume h: "x @ u = a \<and> y = u @ r"
      show ?thesis
      proof (cases u)
        case Nil
        with h full show ?thesis by simp
      next
        case (Cons c u')
        with h assms(1) have "y \<noteq> []" "p (hd y)" by auto
        then show ?thesis by (rule short)
      qed
    qed
  qed
  then show ?thesis
    by (auto simp: first_some_None_iff list_all_iff)
qed

lemma word_not_space: "is_word c \<Longrightarrow> \<not> is_space c"
  by (auto simp: is_word_def is_space_def Let_def)

lemma digit_not_space: "is_digit c \<Longrightarrow> \<not> is_space c"
  by (auto simp: is_digit_def is_space_def Let_def)

lemma class_facts [simp]:
  "\<not> is_word (CHR '' '')" "\<not> is_digit (CHR '' '')" "is_space (CHR '' '')"
  "\<not> is_word (CHR '')'')" "\<not> is_space (CHR ''0'')" "\<not> is_space (CHR ''('')"
  "\<not> is_space (CHR '':'')" "\<not> is_space (CHR ''d'')" "\<not> is_space (CHR ''v'')"
  "is_word (CHR ''b'')" "is_word (CHR ''o'')" "is_word (CHR ''l'')"
  by (simp_all add: is_word_def is_digit_def is_space_def)

lemma star_only_empty:
  "s = [] \<or> \<not> p (hd s) \<Longrightarrow> re_match (Star p # items) cur s = re_match items cur s"
  by (cases "re_match items cur s") (simp_all add: spans_not_first)

lemma contains_here: "contains sub (sub @ post)"
proof (cases "sub @ post")
  case Nil
  then show ?thesis by simp
next
  case (Cons a list)
  have "take (length sub) (sub @ post) = sub" by simp
  then have "take (length sub) (a # list) = sub" by (simp only: Cons)
  then show ?thesis by (simp only: Cons contains.simps simp_thms)
qed

lemma contains_mid: "contains sub (pre @ sub @ post)"
  by (induction pre) (simp_all add: contains_here)

text \<open>
  The integer pattern from its eighth item on fails on the rest of a Boolean line: after
  the colon it asks for \<^verbatim>\<open>min=\<close>.
\<close>

lemma int_tail_fails:
  "re_match [Plus is_space, Lit ''('', Grp_open, Plus is_word, Grp_close, Lit '')'',
      Star is_space, Lit '':'', Star is_space,
      Lit ''min='', Grp_open, Opt (CHR ''-''), Plus is_digit, Grp_close, Plus is_space,
      Lit ''max='', Grp_open, Opt (CHR ''-''), Plus is_digit, Grp_close,
      Star is_any,
      Lit ''default='', Grp_open, Opt (CHR ''-''), Plus is_digit, Grp_close, Plus is_space,
      Lit ''value='', Grp_open, Opt (CHR ''-''), Plus is_digit, Grp_close]
     cur ('' (bool) : default='' @ rest) = None"
  by simp

lemma int_pattern_fails:
  assumes "nm \<noteq> []" "list_all is_word nm" "list_all is_word hx"
  shows "re_match int_pattern [] (bool_line nm hx d v) = None"
proof -
  let ?I7 = "[Plus is_space, Lit ''('', Grp_open, Plus is_word, Grp_close, Lit '')'',
      Star is_space, Lit '':'', Star is_space,
      Lit ''min='', Grp_open, Opt (CHR ''-''), Plus is_digit, Grp_close, Plus is_space,
      Lit ''max='', Grp_open, Opt (CHR ''-''), Plus is_digit, Grp_close,
      Star is_any,
      Lit ''default='', Grp_open, Opt (CHR ''-''), Plus is_digit, Grp_close, Plus is_space,
      Lit ''value='', Grp_open, Opt (CHR ''-''), Plus is_digit, Grp_close]"
  let ?R2 = "'' (bool) : default='' @ d @ '' value='' @ v"
  have f2: "re_match (Plus is_word # ?I7) cur (hx @ ?R2) = None" for cur
  proof (rule plus_none)
    show "list_all is_word hx" by fact
    show "?R2 = [] \<or> \<not> is_word (hd ?R2)" by simp
    show "re_match ?I7 (cur @ hx) ?R2 = None" by (rule int_tail_fails)
    show "re_match ?I7 (cur @ x) y = None" if "y \<noteq> []" "is_word (hd y)" for x y
      using that by (intro plus_fails_at_once) (simp add: word_not_space)
  qed
  let ?I3 = "Grp_close # Plus is_space # Lit ''0x'' # Plus is_word # ?I7"
  have f1: "re_match (Plus is_word # ?I3) [] (nm @ '' 0x'' @ hx @ ?R2) = None"
  proof (rule plus_none)
    show "list_all is_word nm" by fact
    show "'' 0x'' @ hx @ ?R2 = [] \<or> \<not> is_word (hd ('' 0x'' @ hx @ ?R2))" by simp
    show "re_match ?I3 ([] @ nm) ('' 0x'' @ hx @ ?R2) = None"
      using f2 [of "nm @ '' 0x''"] by simp
    show "re_match ?I3 ([] @ x) y = None" if "y \<noteq> []" "is_word (hd y)" for x y
      using that by (simp add: spans_not_first word_not_space)
  qed
  have "\<not> is_space (hd (bool_line nm hx d v))"
    using assms(1,2) by (cases nm) (simp_all add: bool_line_def word_not_space)
  then have "re_match int_pattern [] (bool_line nm hx d v) =
             re_match (Plus is_word # ?I3) [] (bool_line nm hx d v)"
    by (simp add: int_pattern_def star_only_empty del: re_match.simps(3,4))
  then show ?thesis
    using f1 by (simp add: bool_line_def)
qed

text \<open>The Boolean pattern matches a line of the reduced shape, greedily at every item.\<close>

lemma bool_pattern_matches:
  assumes "nm \<noteq> []" "list_all is_word nm" "hx \<noteq> []" "list_all is_word hx"
    and "d \<noteq> []" "list_all is_digit d" "v \<noteq> []" "list_all is_digit v"
  shows "re_match bool_pattern [] (bool_line nm hx d v) = Some [nm, d, v]"
proof -
  let ?B18 = "[Grp_open, Plus is_digit, Grp_close]"
  let ?B15 = "Grp_close # Plus is_space # Lit ''value='' # ?B18"
  let ?B7 = "Plus is_space # Lit ''(bool)'' # Star is_space # Lit '':'' # Star is_space #
             Lit ''default='' # Grp_open # Plus is_digit # ?B15"
  let ?B3 = "Grp_close # Plus is_space # Lit ''0x'' # Plus is_word # ?B7"
  let ?R3 = "'' value='' @ v"
  let ?R2 = "'' (bool) : default='' @ d @ ?R3"
  let ?R1 = "'' 0x'' @ hx @ ?R2"
  have p4: "re_match [Plus is_digit, Grp_close] [] v = Some [v]"
    using plus_greedy [of is_digit v "[]" "[Grp_close]" "[]" "[v]"] assms(7,8) by simp
  have p3: "re_match ?B15 d ?R3 = Some [d, v]"
    using p4 by simp
  have p2: "re_match (Plus is_digit # ?B15) [] (d @ ?R3) = Some [d, v]"
  proof (rule plus_greedy)
    show "list_all is_digit d" "d \<noteq> []" by fact+
    show "?R3 = [] \<or> \<not> is_digit (hd ?R3)" by simp
    show "re_match ?B15 ([] @ d) ?R3 = Some [d, v]" using p3 by simp
  qed
  have p1: "re_match ?B7 cur ?R2 = Some [d, v]" for cur
    using p2 by simp
  have p0: "re_match (Plus is_word # ?B7) cur (hx @ ?R2) = Some [d, v]" for cur
  proof (rule plus_greedy)
    show "list_all is_word hx" "hx \<noteq> []" by fact+
    show "?R2 = [] \<or> \<not> is_word (hd ?R2)" by simp
    show "re_match ?B7 (cur @ hx) ?R2 = Some [d, v]" by (rule p1)
  qed
  have q1: "re_match ?B3 nm ?R1 = Some [nm, d, v]"
    using p0 [of "nm @ '' 0x''"] by simp
  have q0: "re_match (Plus is_word # ?B3) [] (nm @ ?R1) = Some [nm, d, v]"
  proof (rule plus_greedy)
    show "list_all is_word nm" "nm \<noteq> []" by fact+
    show "?R1 = [] \<or> \<not> is_word (hd ?R1)" by simp
    show "re_match ?B3 ([] @ nm) ?R1 = Some [nm, d, v]" using q1 by simp
  qed
  have "\<not> is_space (hd (bool_line nm hx d v))"
    using assms(1,2) by (cases nm) (simp_all add: bool_line_def word_not_space)
  then have "re_match bool_pattern [] (bool_line nm hx d v) =
             re_match (Plus is_word # ?B3) [] (bool_line nm hx d v)"
    by (simp add: bool_pattern_def star_only_empty del: re_match.simps(3,4))
  then show ?thesis
    using q0 by (simp add: bool_line_def)
qed

lemma bool_line_parsed:
  assumes "nm \<noteq> []" "list_all is_word nm" "hx \<noteq> []" "list_all is_word hx"
    and "d \<noteq> []" "list_all is_digit d" "v \<noteq> []" "list_all is_digit v"
    and "\<not> contains ''inactive'' (bool_line nm hx d v)"
    and "\<not> contains ''User Controls'' (bool_line nm hx d v)"
    and "\<not> contains ''Camera Controls'' (bool_line nm hx d v)"
  shows "parse_line (bool_line nm hx d v) =
         Some \<lparr>name = nm, kind = Boolean, min_val = 0, max_val = 1,
               current_val = py_int v, default_val = py_int d\<rparr>"
proof -
  have "\<not> list_all is_space (bool_line nm hx d v)"
    using assms(1,2) by (cases nm) (simp_all add: bool_line_def word_not_space)
  moreover have "contains ''(bool)'' (bool_line nm hx d v)"
    using contains_mid [of "''(bool)''" "nm @ '' 0x'' @ hx @ '' ''" "'' : default='' @ d @ '' value='' @ v"]
    by (simp add: bool_line_def)
  moreover note int_pattern_fails [OF assms(1,2,4), of d v] bool_pattern_matches [OF assms(1-8)] assms(9-11)
  ultimately show ?thesis
    by (simp add: parse_line_def)
qed

text \<open>
  A line of the reduced shape is no header: in it a space is never followed by a
  capital C.
\<close>

lemma has_pair_skip:
  "list_all (\<lambda>c. c \<noteq> a) xs \<Longrightarrow> has_pair a b (xs @ ys) = has_pair a b ys"
proof (induction xs)
  case Nil
  then show ?case by simp
next
  case (Cons x xs)
  then show ?case by (cases "xs @ ys") auto
qed

lemma has_pair_append_right: "has_pair a b ys \<Longrightarrow> has_pair a b (xs @ ys)"
proof (induction xs)
  case Nil
  then show ?case by simp
next
  case (Cons x xs)
  then show ?case by (cases "xs @ ys") auto
qed

lemma has_pair_append_left: "has_pair a b xs \<Longrightarrow> has_pair a b (xs @ ys)"
  by (induction a b xs rule: has_pair.induct) auto

lemma contains_split: "contains sub s \<Longrightarrow> \<exists>pre post. s = pre @ sub @ post"
proof (induction s)
  case Nil
  then show ?case by simp
next
  case (Cons c cs)
  show ?case
  proof (cases "take (length sub) (c # cs) = sub")
    case True
    then have "c # cs = [] @ sub @ drop (length sub) (c # cs)"
      by (metis append_Nil append_take_drop_id)
    then show ?thesis by blast
  next
    case False
    with Cons obtain pre post where "cs = pre @ sub @ post" by auto
    then have "c # cs = (c # pre) @ sub @ post" by simp
    then show ?thesis by blast
  qed
qed

lemma contains_has_pair:
  "contains sub s \<Longrightarrow> has_pair a b sub \<Longrightarrow> has_pair a b s"
  by (auto dest!: contains_split intro: has_pair_append_right has_pair_append_left)

lemma word_no_space: "list_all is_word xs \<Longrightarrow> list_all (\<lambda>c. c \<noteq> CHR '' '') xs"
  by (induction xs) auto

lemma digit_no_space: "list_all is_digit xs \<Longrightarrow> list_all (\<lambda>c. c \<noteq> CHR '' '') xs"
  by (induction xs) auto

lemma bool_line_no_header:
  assumes "list_all is_word nm" "list_all is_word hx" "list_all is_digit d" "list_all is_digit v"
  shows "\<not> contains ''User Controls'' (bool_line nm hx d v) \<and>
         \<not> contains ''Camera Controls'' (bool_line nm hx d v)"
proof -
  have "has_pair (CHR '' '') (CHR ''C'') (v @ []) = has_pair (CHR '' '') (CHR ''C'') []"
    using assms(4) by (intro has_pair_skip digit_no_space)
  then have v: "\<not> has_pair (CHR '' '') (CHR ''C'') v" by simp
  have "\<not> has_pair (CHR '' '') (CHR ''C'') (d @ '' value='' @ v)"
    using assms(3) v by (cases v) (simp_all add: has_pair_skip digit_no_space)
  then have "\<not> has_pair (CHR '' '') (CHR ''C'') (hx @ '' (bool) : default='' @ d @ '' value='' @ v)"
    using assms(2) by (cases d) (simp_all add: has_pair_skip word_no_space)
  then have "\<not> has_pair (CHR '' '') (CHR ''C'') (bool_line nm hx d v)"
    using assms(1) by (cases hx) (simp_all add: bool_line_def has_pair_skip word_no_space)
  moreover have "has_pair (CHR '' '') (CHR ''C'') ''User Controls''"
    "has_pair (CHR '' '') (CHR ''C'') ''Camera Controls''"
    by simp_all
  ultimately show ?thesis
    by (blast dest: contains_has_pair)
qed

text \<open>
  C5. A line of the reduced shape \<^verbatim>\<open><name> 0x<hx> (bool) : default=<d> value=<v>\<close>,
  with a name and an identifier of word characters and two numbers of digits, and
  without the marker \<^verbatim>\<open>inactive\<close>, makes the call for the control of this name with kind
  Boolean, the bounds 0 and 1, the default \<open>d\<close> and the value \<open>v\<close>. Whatever the line, a
  control of the Boolean branch has the bounds 0 and 1. On the line
  \<^verbatim>\<open>white_balance_automatic 0x0009 (bool) : default=1 value=0\<close> the parser creates
  exactly one control, and raises nothing: name white_balance_automatic, kind Boolean,
  min 0, max 1, default 1, current value 0.
\<close>

theorem parse_bool_line:
  "(\<forall>nm hx d v.
      nm \<noteq> [] \<and> list_all is_word nm \<and> hx \<noteq> [] \<and> list_all is_word hx \<and>
      d \<noteq> [] \<and> list_all is_digit d \<and> v \<noteq> [] \<and> list_all is_digit v \<and>
      \<not> contains ''inactive'' (bool_line nm hx d v) \<longrightarrow>
      parse_line (bool_line nm hx d v) =
        Some \<lparr>name = nm, kind = Boolean, min_val = 0, max_val = 1,
              current_val = py_int v, default_val = py_int d\<rparr>) \<and>
   (\<forall>line c. parse_line line = Some c \<and> kind c = Boolean \<longrightarrow> min_val c = 0 \<and> max_val c = 1) \<and>
   parse_and_create_controls ''white_balance_automatic 0x0009 (bool) : default=1 value=0'' =
   ([\<lparr>name = ''white_balance_automatic'', kind = Boolean, min_val = 0, max_val = 1,
      current_val = 0, default_val = 1\<rparr>], None)"
proof (intro conjI allI impI)
  fix nm hx d v
  assume "nm \<noteq> [] \<and> list_all is_word nm \<and> hx \<noteq> [] \<and> list_all is_word hx \<and>
      d \<noteq> [] \<and> list_all is_digit d \<and> v \<noteq> [] \<and> list_all is_digit v \<and>
      \<not> contains ''inactive'' (bool_line nm hx d v)"
  then show "parse_line (bool_line nm hx d v) =
        Some \<lparr>name = nm, kind = Boolean, min_val = 0, max_val = 1,
              current_val = py_int v, default_val = py_int d\<rparr>"
    using bool_line_no_header [of nm hx d v] by (intro bool_line_parsed) simp_all
next
  fix line c
  assume "parse_line line = Some c \<and> kind c = Boolean"
  then show "min_val c = 0" "max_val c = 1"
    using parse_line_Boolean_bounds [of line c] by simp_all
next
  show "parse_and_create_controls ''white_balance_automatic 0x0009 (bool) : default=1 value=0'' =
        ([\<lparr>name = ''white_balance_automatic'', kind = Boolean, min_val = 0, max_val = 1,
           current_val = 0, default_val = 1\<rparr>], None)"
    by code_simp
qed

theorem parse_bool_line_witness:
  "list_all is_word ''white_balance_automatic'' \<and> list_all is_word ''0009'' \<and>
   list_all is_digit ''1'' \<and> list_all is_digit ''0'' \<and>
   \<not> contains ''inactive'' (bool_line ''white_balance_automatic'' ''0009'' ''1'' ''0'') \<and>
   bool_line ''white_balance_automatic'' ''0009'' ''1'' ''0'' =
     ''white_balance_automatic 0x0009 (bool) : default=1 value=0'' \<and>
   parse_line (bool_line ''white_balance_automatic'' ''0009'' ''1'' ''0'') =
     Some \<lparr>name = ''white_balance_automatic'', kind = Boolean, min_val = 0, max_val = 1,
           current_val = 0, default_val = 1\<rparr>"
proof -
  have h: "list_all is_word ''white_balance_automatic''" "list_all is_word ''0009''"
    "list_all is_digit ''1''" "list_all is_digit ''0''"
    "\<not> contains ''inactive'' (bool_line ''white_balance_automatic'' ''0009'' ''1'' ''0'')"
    by code_simp+
  have l: "bool_line ''white_balance_automatic'' ''0009'' ''1'' ''0'' =
           ''white_balance_automatic 0x0009 (bool) : default=1 value=0''"
    by (simp add: bool_line_def)
  have i: "py_int ''0'' = 0" "py_int ''1'' = 1"
    by code_simp+
  from parse_bool_line h
  have "parse_line (bool_line ''white_balance_automatic'' ''0009'' ''1'' ''0'') =
        Some \<lparr>name = ''white_balance_automatic'', kind = Boolean, min_val = 0, max_val = 1,
              current_val = py_int ''0'', default_val = py_int ''1''\<rparr>"
    by blast
  then show ?thesis
    using h l by (simp only: i simp_thms)
qed

section \<open>The sepia effect\<close>

text \<open>
  What the code computes for one pixel stored as blue, green, red: the matrix is applied
  to the channels in their stored order, so the first column of coefficients meets the
  blue input and the third the red. The integers are the coefficients times 1024,
  rounded: 402, 787 and 194 stand for 0.393, 0.769 and 0.189.
\<close>

lemma sepia_fixed_point:
  "map (map fixed_point) sepia_kernel = [[279, 547, 134], [357, 702, 172], [402, 787, 194]]"
  by code_simp

lemma sepia_code_pixel:
  "effect vt = ''sepia'' \<Longrightarrow>
   apply_effect cv vt [[[b, g, r]]] =
     [[[saturate_u8 ((279 * int (unat b) + 547 * int (unat g) + 134 * int (unat r) + 512) div 1024),
        saturate_u8 ((357 * int (unat b) + 702 * int (unat g) + 172 * int (unat r) + 512) div 1024),
        saturate_u8 ((402 * int (unat b) + 787 * int (unat g) + 194 * int (unat r) + 512) div 1024)]]]"
  using sepia_fixed_point
  by (simp add: apply_effect_def cv_transform_def sepia_kernel_def add.assoc)

text \<open>Two pixels of one colour: a dark red and the full red.\<close>

lemma sepia_code_dark_red: "cv_transform [[[0, 0, 42]]] sepia_kernel = [[[5, 7, 8]]]"
  by code_simp

lemma sepia_code_red: "cv_transform [[[0, 0, 255]]] sepia_kernel = [[[33, 43, 48]]]"
  by code_simp

lemma sepia_spec_red: "map (map sepia_spec_pixel) [[[0, 0, 255]]] = [[[69, 89, 100]]]"
  by code_simp

text \<open>
  C1. The claim is that the red output is 0.393 R + 0.769 G + 0.189 B, the green output
  0.349 R + 0.686 G + 0.168 B and the blue output 0.272 R + 0.534 G + 0.131 B. On the
  pure red pixel (blue 0, green 0, red 255) the code gives blue 33, green 43, red 48,
  where the formulas of the claim give blue 69, green 89, red 100.
\<close>

theorem sepia_swaps_red_and_blue:
  "apply_effect cv (change_effect ''Sepia'' VideoThread_init) [[[0, 0, 255]]] = [[[33, 43, 48]]] \<and>
   map (map sepia_spec_pixel) [[[0, 0, 255]]] = [[[69, 89, 100]]]"
proof -
  have "effect (change_effect ''Sepia'' VideoThread_init) = ''sepia''"
    by (simp add: change_effect_def effect_map_def)
  then show ?thesis
    using sepia_code_red sepia_spec_red by (simp add: apply_effect_def)
qed

section \<open>The emboss effect\<close>

lemma correlate_emboss:
  "correlate f emboss_kernel y x c =
     - sample f (int y - 1) (int x) c - sample f (int y - 1) (int x + 1) c
     + sample f (int y) (int x - 1) c - sample f (int y) (int x + 1) c
     + sample f (int y + 1) (int x - 1) c + sample f (int y + 1) (int x) c"
  by (simp add: correlate_def emboss_kernel_def add.commute)

lemma unat_word_of_int_small: "0 \<le> k \<Longrightarrow> k < 256 \<Longrightarrow> unat (word_of_int k :: 8 word) = nat k"
  by (simp add: unsigned_of_int take_bit_int_eq_self)

lemma unat_saturate_u8: "unat (saturate_u8 v) = nat (max 0 (min 255 v))"
  unfolding saturate_u8_def by (rule unat_word_of_int_small) auto

lemma unat_plus_128: "unat (w + 128 :: 8 word) = (unat w + 128) mod 256"
  by (simp add: unat_word_ariths)

lemma np_add_scalar_nth:
  "y < length a \<Longrightarrow> x < length (a ! y) \<Longrightarrow> c < length (a ! y ! x) \<Longrightarrow>
   np_add_scalar a k ! y ! x ! c = a ! y ! x ! c + k"
  by (simp add: np_add_scalar_def)

lemma emboss_nth:
  assumes "effect vt = ''emboss''" and "y < rows f" and "x < cols f" and "c < chans f"
  shows "apply_effect cv vt f ! y ! x ! c = saturate_u8 (correlate f emboss_kernel y x c) + 128"
  using assms by (simp add: apply_effect_def np_add_scalar_nth cv_filter2D_def rows_def)

text \<open>
  C6. With the emboss effect, every channel value of the output is the correlation of
  the channel with the kernel [[0,-1,-1],[1,0,-1],[1,1,0]] (the six neighbours with a
  nonzero coefficient, read with the border rule), saturated to 0..255, plus 128 modulo
  256.
\<close>

theorem emboss_adds_128_with_wraparound:
  assumes "effect vt = ''emboss''" and "y < rows f" and "x < cols f" and "c < chans f"
  shows "unat (apply_effect cv vt f ! y ! x ! c) =
           (nat (max 0 (min 255 (correlate f emboss_kernel y x c))) + 128) mod 256 \<and>
         correlate f emboss_kernel y x c =
           - sample f (int y - 1) (int x) c - sample f (int y - 1) (int x + 1) c
           + sample f (int y) (int x - 1) c - sample f (int y) (int x + 1) c
           + sample f (int y + 1) (int x - 1) c + sample f (int y + 1) (int x) c"
  using assms by (simp only: emboss_nth unat_plus_128 unat_saturate_u8 correlate_emboss simp_thms)

lemma emboss_example_correlation:
  "correlate [[[0], [0], [0]], [[200], [0], [0]], [[200], [200], [0]]] emboss_kernel (Suc 0) (Suc 0) 0 = 600"
  by code_simp

theorem emboss_adds_128_with_wraparound_witness:
  "effect (change_effect ''Emboss'' VideoThread_init) = ''emboss'' \<and>
   1 < rows [[[0], [0], [0]], [[200], [0], [0]], [[200], [200], [0]]] \<and>
   1 < cols [[[0], [0], [0]], [[200], [0], [0]], [[200], [200], [0]]] \<and>
   0 < chans [[[0], [0], [0]], [[200], [0], [0]], [[200], [200], [0]]] \<and>
   unat (apply_effect plain_cv (change_effect ''Emboss'' VideoThread_init)
           [[[0], [0], [0]], [[200], [0], [0]], [[200], [200], [0]]] ! 1 ! 1 ! 0) = 127"
proof -
  let ?f = "[[[0], [0], [0]], [[200], [0], [0]], [[200], [200], [0]]] :: frame"
  have e: "effect (change_effect ''Emboss'' VideoThread_init) = ''emboss''"
    by (simp add: change_effect_def effect_map_def)
  have d: "1 < rows ?f" "1 < cols ?f" "0 < chans ?f"
    by (simp_all add: rows_def cols_def chans_def)
  from emboss_adds_128_with_wraparound [OF e d, of plain_cv]
  have "unat (apply_effect plain_cv (change_effect ''Emboss'' VideoThread_init) ?f ! 1 ! 1 ! 0) =
        (nat (max 0 (min 255 (correlate ?f emboss_kernel 1 1 0))) + 128) mod 256"
    by (rule conjunct1)
  then show ?thesis
    using e d by (simp add: emboss_example_correlation)
qed

section \<open>The capture loop\<close>

text \<open>
  C7. In an iteration whose read fails the loop emits nothing, changes no field of the
  thread and goes on with the next event: the execution is the one without the failed
  read, and after the failed read alone the state and the emitted images are as before.
\<close>

theorem failed_read_is_skipped:
  "running vt \<Longrightarrow>
   capture_loop cv vt out (Read False frame # evs) = capture_loop cv vt out evs \<and>
   capture_loop cv vt out [Read False frame] = (vt, out)"
  by simp

theorem failed_read_is_skipped_witness:
  "running (VideoThread_init\<lparr>running := True\<rparr>) \<and>
   capture_loop plain_cv (VideoThread_init\<lparr>running := True\<rparr>) []
      [Read False [], Read True [[[1, 2, 3]]]] =
   capture_loop plain_cv (VideoThread_init\<lparr>running := True\<rparr>) [] [Read True [[[1, 2, 3]]]] \<and>
   capture_loop plain_cv (VideoThread_init\<lparr>running := True\<rparr>) [] [Read True [[[1, 2, 3]]]] =
     (VideoThread_init\<lparr>running := True\<rparr>, [[[[3, 2, 1]]]])"
  using failed_read_is_skipped
    [of "VideoThread_init\<lparr>running := True\<rparr>" plain_cv "[]" "[]" "[Read True [[[1, 2, 3]]]]"]
  by (simp add: VideoThread_init_def process_frame_def apply_effect_def cvtColor_BGR2RGB_def)

section \<open>Stopping a thread that is not executing\<close>

text \<open>
  C9. On a thread that is not executing \<^verbatim>\<open>run\<close> (never started, or finished),
  \<^verbatim>\<open>stop\<close> returns without blocking, the flag is cleared afterwards, the state of the
  thread is as before, and nothing at all changes when the flag was clear already.
\<close>

theorem stop_when_not_running:
  "qthread vt \<noteq> Executing \<Longrightarrow>
   snd (stop vt) = Returns_at_once \<and> \<not> running (fst (stop vt)) \<and>
   qthread (fst (stop vt)) = qthread vt \<and>
   (if running vt then fst (stop vt) = vt\<lparr>running := False\<rparr> else fst (stop vt) = vt)"
  by (simp add: stop_def QThread_wait_def)

theorem stop_when_not_running_witness:
  "qthread VideoThread_init \<noteq> Executing \<and> \<not> running VideoThread_init \<and>
   stop VideoThread_init = (VideoThread_init, Returns_at_once)"
  using stop_when_not_running [of VideoThread_init]
  by (simp add: VideoThread_init_def prod_eq_iff)

section \<open>The order of the pipeline\<close>

lemma cols_map_upt: "0 < n \<Longrightarrow> cols (map g [0..<n]) = length (g 0)"
  by (cases n) (simp_all add: cols_def upt_rec)

lemma rows_quarter_turn: "rows (quarter_turn f) = cols f"
  by (simp add: quarter_turn_def rows_def)

lemma cols_quarter_turn: "0 < cols f \<Longrightarrow> cols (quarter_turn f) = rows f"
  by (simp add: quarter_turn_def cols_map_upt)

lemma quarter_turn_nth:
  "i < cols f \<Longrightarrow> j < rows f \<Longrightarrow> quarter_turn f ! i ! j = f ! (rows f - 1 - j) ! i"
  by (simp add: quarter_turn_def)

lemma quarter_turn_eq:
  "rows g = h \<Longrightarrow> cols g = w \<Longrightarrow>
   quarter_turn g = map (\<lambda>i. map (\<lambda>j. g ! (h - 1 - j) ! i) [0..<h]) [0..<w]"
  by (auto simp: quarter_turn_def)

text \<open>A rotation by 180 degrees is two clockwise quarter turns.\<close>

lemma rotate_180_is_two_turns:
  assumes "0 < rows f" and "0 < cols f"
  shows "cv_rotate f ROTATE_180 = quarter_turn (quarter_turn f)"
proof -
  have r: "rows (quarter_turn f) = cols f" and c: "cols (quarter_turn f) = rows f"
    using assms by (simp_all add: rows_quarter_turn cols_quarter_turn)
  have "quarter_turn (quarter_turn f) =
        map (\<lambda>i. map (\<lambda>j. quarter_turn f ! (cols f - 1 - j) ! i) [0..<cols f]) [0..<rows f]"
    using r c by (rule quarter_turn_eq)
  also have "\<dots> = map (\<lambda>i. map (\<lambda>j. f ! (rows f - 1 - i) ! (cols f - 1 - j)) [0..<cols f]) [0..<rows f]"
    using assms by (auto simp: quarter_turn_nth)
  finally show ?thesis by simp
qed

lemma rows_rotate_180: "rows (cv_rotate f ROTATE_180) = rows f"
  by (simp add: rows_def)

lemma cols_rotate_180: "0 < rows f \<Longrightarrow> cols (cv_rotate f ROTATE_180) = cols f"
  by (simp add: cols_map_upt)

text \<open>A counterclockwise quarter turn is three clockwise ones.\<close>

lemma rotate_ccw_is_three_turns:
  assumes "0 < rows f" and "0 < cols f"
  shows "cv_rotate f ROTATE_90_COUNTERCLOCKWISE = quarter_turn (quarter_turn (quarter_turn f))"
proof -
  let ?g = "cv_rotate f ROTATE_180"
  have e: "?g = quarter_turn (quarter_turn f)"
    using assms by (rule rotate_180_is_two_turns)
  have "quarter_turn ?g =
        map (\<lambda>i. map (\<lambda>j. ?g ! (rows f - 1 - j) ! i) [0..<rows f]) [0..<cols f]"
    using assms by (intro quarter_turn_eq rows_rotate_180 cols_rotate_180)
  also have "\<dots> = map (\<lambda>i. map (\<lambda>j. f ! j ! (cols f - 1 - i)) [0..<rows f]) [0..<cols f]"
    using assms by auto
  finally have "quarter_turn ?g = cv_rotate f ROTATE_90_COUNTERCLOCKWISE"
    by simp
  then show ?thesis
    unfolding e by (rule sym)
qed

lemma is_image_map_rev: "is_image f \<Longrightarrow> is_image (map rev f)"
  by (cases f) (auto simp: is_image_def rows_def cols_def list_all_iff)

lemma is_image_rev: "is_image f \<Longrightarrow> is_image (rev f)"
  by (cases "rev f") (auto simp: is_image_def rows_def cols_def list_all_iff split: list.splits)

lemma rotation_branches:
  assumes "d \<in> {0, 90, 180, 270}" and "is_image f"
  shows "(if d = 90 then cv_rotate f ROTATE_90_CLOCKWISE
          else if d = 180 then cv_rotate f ROTATE_180
          else if d = 270 then cv_rotate f ROTATE_90_COUNTERCLOCKWISE
          else f) = rotation_step d f"
proof -
  have p: "0 < rows f" "0 < cols f"
    using assms(2) by (simp_all add: is_image_def)
  from assms(1) consider "d = 0" | "d = 90" | "d = 180" | "d = 270"
    by auto
  then show ?thesis
  proof cases
    case 1
    then show ?thesis by (simp add: rotation_step_def)
  next
    case 2
    then show ?thesis by (simp add: rotation_step_def quarter_turn_def)
  next
    case 3
    then show ?thesis
      using rotate_180_is_two_turns [OF p]
      by (simp add: rotation_step_def eval_nat_numeral del: cv_rotate.simps)
  next
    case 4
    then show ?thesis
      using rotate_ccw_is_three_turns [OF p]
      by (simp add: rotation_step_def eval_nat_numeral del: cv_rotate.simps)
  qed
qed

text \<open>The chain of comparisons of \<open>apply_effect\<close> selects the transform of the tag.\<close>

lemma apply_effect_tag:
  "tag_of (effect vt) = Some t \<Longrightarrow> apply_effect cv vt f = effect_step cv t f"
  by (auto simp: tag_of_def apply_effect_def Let_def split: if_splits)

text \<open>
  The fields keep their range under the writes of the user interface: the rotation is a
  quarter turn and the effect is one of the nine tags.
\<close>

lemma change_effect_tag: "tag_of (effect (change_effect n vt)) \<noteq> None"
  by (auto simp: change_effect_def effect_map_def tag_of_def split: option.splits if_splits)

lemma ui_step_keeps_range:
  assumes "rotate_deg vt \<in> {0, 90, 180, 270}" and "tag_of (effect vt) \<noteq> None"
  shows "rotate_deg (ui_step a vt) \<in> {0, 90, 180, 270} \<and> tag_of (effect (ui_step a vt)) \<noteq> None"
proof (cases a)
  case Rotate_video
  then show ?thesis
    using assms rotate_video_step [of vt] by (simp add: rotate_video_def del: insert_iff)
next
  case (Change_effect n)
  then show ?thesis
    using assms change_effect_tag [of n vt] by (simp add: change_effect_def del: insert_iff)
qed (use assms in \<open>simp_all add: toggle_mirror_def toggle_flip_def del: insert_iff\<close>)

lemma ui_steps_keep_range:
  "rotate_deg (foldl (\<lambda>v a. ui_step a v) VideoThread_init acts) \<in> {0, 90, 180, 270} \<and>
   tag_of (effect (foldl (\<lambda>v a. ui_step a v) VideoThread_init acts)) \<noteq> None"
proof (induction acts rule: rev_induct)
  case Nil
  show ?case by (simp add: VideoThread_init_def tag_of_def)
next
  case (snoc a acts)
  then show ?case
    using ui_step_keeps_range [of "foldl (\<lambda>v a. ui_step a v) VideoThread_init acts" a]
    by (simp del: insert_iff)
qed

text \<open>
  C3. For a frame read in a running loop, with the rotation a quarter turn and the
  effect one of the nine tags, the loop emits exactly one image: the frame after the
  mirror if its flag is set, then the flip if its flag is set, then the rotation by the
  quarter turns of the rotation field, then the one transform of the tag, then the
  conversion from BGR to RGB.
\<close>

theorem frame_pipeline_order:
  assumes "running vt" and "rotate_deg vt \<in> {0, 90, 180, 270}"
    and "tag_of (effect vt) = Some t" and "is_image frame"
  shows "capture_loop cv vt out (Read True frame # evs) =
           capture_loop cv vt
             (out @ [display_step (effect_step cv t (rotation_step (rotate_deg vt)
                       (flip_step (flip vt) (mirror_step (mirror vt) frame))))]) evs"
proof -
  let ?m = "mirror_step (mirror vt) frame"
  let ?f = "flip_step (flip vt) ?m"
  have "is_image ?m"
    using assms(4) by (simp add: mirror_step_def is_image_map_rev)
  then have "is_image ?f"
    by (simp add: flip_step_def is_image_rev)
  then have r: "(if rotate_deg vt = 90 then cv_rotate ?f ROTATE_90_CLOCKWISE
              else if rotate_deg vt = 180 then cv_rotate ?f ROTATE_180
              else if rotate_deg vt = 270 then cv_rotate ?f ROTATE_90_COUNTERCLOCKWISE
              else ?f) = rotation_step (rotate_deg vt) ?f"
    using assms(2) by (rule rotation_branches [rotated])
  have m: "(if mirror vt then cv_flip frame 1 else frame) = ?m"
    by (simp add: mirror_step_def cv_flip_def)
  have f: "(if flip vt then cv_flip ?m 0 else ?m) = ?f"
    by (simp add: flip_step_def cv_flip_def)
  have "process_frame cv vt frame =
      display_step (effect_step cv t (rotation_step (rotate_deg vt) ?f))"
    unfolding process_frame_def Let_def m f r display_step_def apply_effect_tag [OF assms(3)] ..
  then show ?thesis
    using assms(1) by simp
qed

theorem frame_pipeline_order_witness:
  "capture_loop plain_cv
     \<lparr>device = Some 0, running = True, mirror = True, flip = True, rotate_deg = 270,
      effect = ''negative'', qthread = Executing\<rparr> []
     [Read True [[[1, 2, 3], [4, 5, 6]], [[7, 8, 9], [10, 11, 12]]]] =
   (\<lparr>device = Some 0, running = True, mirror = True, flip = True, rotate_deg = 270,
      effect = ''negative'', qthread = Executing\<rparr>,
    [[[[246, 247, 248], [252, 253, 254]], [[243, 244, 245], [249, 250, 251]]]])"
proof -
  let ?vt = "\<lparr>device = Some 0, running = True, mirror = True, flip = True, rotate_deg = 270,
              effect = ''negative'', qthread = Executing\<rparr>"
  let ?frame = "[[[1, 2, 3], [4, 5, 6]], [[7, 8, 9], [10, 11, 12]]] :: frame"
  have a: "running ?vt" "rotate_deg ?vt \<in> {0, 90, 180, 270}" "tag_of (effect ?vt) = Some Negative"
    by (simp_all add: tag_of_def)
  have b: "is_image ?frame"
    by (simp add: is_image_def rows_def cols_def)
  have c: "display_step (effect_step plain_cv Negative (rotation_step 270
             (flip_step True (mirror_step True ?frame)))) =
           [[[246, 247, 248], [252, 253, 254]], [[243, 244, 245], [249, 250, 251]]]"
    by code_simp
  from frame_pipeline_order [OF a b, of plain_cv "[]" "[]"] c show ?thesis
    by simp
qed

section \<open>Writing a control\<close>

text \<open>
  With no device selected the method returns at once: no call, no print, the label as
  it was.
\<close>

lemma update_control_no_device:
  "current_device self = None \<or> current_device self = Some [] \<Longrightarrow>
   update_control str_title subprocess_run self control_name val label = Inr (self, label)"
  by (auto simp: update_control_def)

text \<open>
  An exception of the call that is no instance of \<^verbatim>\<open>Exception\<close> leaves the method.
\<close>

lemma update_control_base_exception:
  "current_device self = Some dev \<Longrightarrow> dev \<noteq> [] \<Longrightarrow>
   subprocess_run (set_ctrl_call dev control_name val) = Inl (Base_exception e) \<Longrightarrow>
   update_control str_title subprocess_run self control_name val label = Inl (Base_exception e)"
  by (simp add: update_control_def Let_def)

text \<open>
  C8. The claim is that a failed call is swallowed and leaves the state the caller sees
  unchanged. The label the caller passes is written before the call: after a failed
  write of 200 it reads \<open>Brightness: 200\<close> where it read \<open>Brightness: 64\<close>.
\<close>

theorem update_control_changes_label_on_failure:
  "update_control ascii_title (\<lambda>call. Inl (Other_exception ''boom''))
     \<lparr>current_device = Some ''/dev/video0'', invoked = [], printed = []\<rparr>
     ''brightness'' 200 ''Brightness: 64'' =
   Inr (\<lparr>current_device = Some ''/dev/video0'',
         invoked = [\<lparr>argv = [''v4l2-ctl'', ''-d'', ''/dev/video0'', ''--set-ctrl'',
                             ''brightness=200''],
                     capture_output = True, timeout = 1 / 10\<rparr>],
         printed = [''Error setting brightness: boom'']\<rparr>,
        ''Brightness: 200'') \<and>
   ''Brightness: 200'' \<noteq> ''Brightness: 64''"
proof -
  have l: "label_text ascii_title ''brightness'' 200 = ''Brightness: 200''"
    by code_simp
  have s: "py_str 200 = ''200''"
    by code_simp
  show ?thesis
    by (simp add: update_control_def set_ctrl_call_def Let_def l s)
qed

text \<open>
  C8, as amended. With a device selected, for every name and value, the method sets the
  label to the requested value and makes the call with a timeout of a tenth of a second.
  When the call returns, times out or raises another instance of \<^verbatim>\<open>Exception\<close>, the
  method returns without raising: after a timeout nothing is printed, after another
  exception one line is printed, the selected device is as before, and the label keeps
  the requested value whether the call succeeded or not.
\<close>

theorem update_control_swallows_failures:
  assumes "current_device self = Some dev" and "dev \<noteq> []"
    and "case subprocess_run (set_ctrl_call dev control_name val) of
           Inl e \<Rightarrow> is_Exception e | Inr completed \<Rightarrow> True"
  shows "\<exists>self'.
           update_control str_title subprocess_run self control_name val label =
             Inr (self', label_text str_title control_name val) \<and>
           invoked self' = invoked self @ [set_ctrl_call dev control_name val] \<and>
           timeout (set_ctrl_call dev control_name val) = 1 / 10 \<and>
           timeout (set_ctrl_call dev control_name val) < 1 \<and>
           current_device self' = current_device self \<and>
           printed self' =
             (case subprocess_run (set_ctrl_call dev control_name val) of
                Inl (Other_exception e) \<Rightarrow>
                  printed self @ [''Error setting '' @ control_name @ '': '' @ e]
              | _ \<Rightarrow> printed self)"
proof (cases "subprocess_run (set_ctrl_call dev control_name val)")
  case (Inr completed)
  then show ?thesis
    using assms(1,2) by (simp add: update_control_def Let_def) (simp add: set_ctrl_call_def)
next
  case (Inl e)
  with assms(3) have "is_Exception e" by simp
  then show ?thesis
    using assms(1,2) Inl
    by (cases e) (simp_all add: update_control_def Let_def, simp_all add: set_ctrl_call_def)
qed

theorem update_control_swallows_failures_witness:
  "update_control ascii_title (\<lambda>call. Inl TimeoutExpired)
     \<lparr>current_device = Some ''/dev/video2'', invoked = [], printed = []\<rparr>
     ''white_balance_automatic'' 1 ''White Balance Automatic: 0'' =
   Inr (\<lparr>current_device = Some ''/dev/video2'',
         invoked = [\<lparr>argv = [''v4l2-ctl'', ''-d'', ''/dev/video2'', ''--set-ctrl'',
                             ''white_balance_automatic=1''],
                     capture_output = True, timeout = 1 / 10\<rparr>],
         printed = []\<rparr>,
        ''White Balance Automatic: 1'')"
proof -
  let ?self = "\<lparr>current_device = Some ''/dev/video2'', invoked = [], printed = []\<rparr>"
  let ?run = "\<lambda>call :: subprocess_call. (Inl TimeoutExpired :: py_exception + unit)"
  have l: "label_text ascii_title ''white_balance_automatic'' 1 = ''White Balance Automatic: 1''"
    by code_simp
  have s: "py_str 1 = ''1''"
    by code_simp
  have "case ?run (set_ctrl_call ''/dev/video2'' ''white_balance_automatic'' 1) of
          Inl e \<Rightarrow> is_Exception e | Inr completed \<Rightarrow> True"
    by simp
  from update_control_swallows_failures
         [of ?self "''/dev/video2''" ?run "''white_balance_automatic''" 1 ascii_title
             "''White Balance Automatic: 0''", OF _ _ this]
  obtain self' where
    "update_control ascii_title ?run ?self ''white_balance_automatic'' 1
       ''White Balance Automatic: 0'' = Inr (self', ''White Balance Automatic: 1'')"
    and "invoked self' = [set_ctrl_call ''/dev/video2'' ''white_balance_automatic'' 1]"
    and "current_device self' = Some ''/dev/video2''"
    and "printed self' = []"
    by (auto simp: l)
  then show ?thesis
    by (cases self') (simp add: set_ctrl_call_def s)
qed

end
